theory Spec2Isabelle
  imports Main "HOL-Library.Product_Lexorder" "HOL-Library.Option_ord" "HOL-Library.Multiset"
begin

section \<open>Strings, dates and JSON values\<close>

text \<open>
  A Python string is modelled by its UTF-8 encoding, a \<open>string\<close> of bytes: an ASCII
  character is one byte, every other character a sequence of two to four bytes.
\<close>

text \<open>
  \<open>str.upper\<close> follows the case tables of Unicode, which are not part of the repository:
  the routes get it from the environment (\<open>str_upper\<close> below). What is assumed of it, where
  a statement says so, is \<open>upper_ok\<close>: on a string of ASCII characters it maps the letters
  a to z to A to Z and leaves every other character alone.
\<close>

definition upper_char :: "char \<Rightarrow> char" where
  "upper_char c =
     (case map_of (zip ''abcdefghijklmnopqrstuvwxyz'' ''ABCDEFGHIJKLMNOPQRSTUVWXYZ'') c of
        None \<Rightarrow> c
      | Some u \<Rightarrow> u)"

definition ascii_upper :: "string \<Rightarrow> string" where
  "ascii_upper s = map upper_char s"

definition ascii :: "string \<Rightarrow> bool" where
  "ascii s = list_all (\<lambda>c. (of_char c :: nat) < 128) s"

definition upper_ok :: "(string \<Rightarrow> string) \<Rightarrow> bool" where
  "upper_ok f = (\<forall>s. ascii s \<longrightarrow> f s = ascii_upper s)"

text \<open>
  \<open>str.strip\<close> removes the leading and the trailing characters for which \<open>str.isspace\<close>
  holds. These are the code points 0x09 to 0x0D, 0x1C to 0x20, 0x85, 0xA0, 0x1680, 0x2000
  to 0x200A, 0x2028, 0x2029, 0x202F, 0x205F and 0x3000; \<open>whitespace\<close> lists their UTF-8
  encodings (lemma \<open>whitespace_code_points\<close>). In UTF-8 no encoding of a character begins
  or ends with the encoding of another, so taking the listed sequences off the front and,
  reversed, off the reversed string removes whole characters only.
\<close>

text \<open>The bytes of the UTF-8 encoding of a code point, as numbers.\<close>

definition utf8 :: "nat \<Rightarrow> nat list" where
  "utf8 n =
     (if n < 0x80 then [n]
      else if n < 0x800 then [0xC0 + n div 64, 0x80 + n mod 64]
      else if n < 0x10000 then [0xE0 + n div 4096, 0x80 + n div 64 mod 64, 0x80 + n mod 64]
      else [0xF0 + n div 262144, 0x80 + n div 4096 mod 64, 0x80 + n div 64 mod 64,
            0x80 + n mod 64])"

definition whitespace :: "string list" where
  "whitespace =
     [[CHR 0x09], [CHR 0x0A], [CHR 0x0B], [CHR 0x0C], [CHR 0x0D],
      [CHR 0x1C], [CHR 0x1D], [CHR 0x1E], [CHR 0x1F], [CHR 0x20],
      [CHR 0xC2, CHR 0x85], [CHR 0xC2, CHR 0xA0],
      [CHR 0xE1, CHR 0x9A, CHR 0x80],
      [CHR 0xE2, CHR 0x80, CHR 0x80], [CHR 0xE2, CHR 0x80, CHR 0x81],
      [CHR 0xE2, CHR 0x80, CHR 0x82], [CHR 0xE2, CHR 0x80, CHR 0x83],
      [CHR 0xE2, CHR 0x80, CHR 0x84], [CHR 0xE2, CHR 0x80, CHR 0x85],
      [CHR 0xE2, CHR 0x80, CHR 0x86], [CHR 0xE2, CHR 0x80, CHR 0x87],
      [CHR 0xE2, CHR 0x80, CHR 0x88], [CHR 0xE2, CHR 0x80, CHR 0x89],
      [CHR 0xE2, CHR 0x80, CHR 0x8A],
      [CHR 0xE2, CHR 0x80, CHR 0xA8], [CHR 0xE2, CHR 0x80, CHR 0xA9],
      [CHR 0xE2, CHR 0x80, CHR 0xAF],
      [CHR 0xE2, CHR 0x81, CHR 0x9F],
      [CHR 0xE3, CHR 0x80, CHR 0x80]]"

text \<open>Taking the sequences of \<open>ws\<close> off the front of \<open>s\<close> for as long as one is there.\<close>

function lstrip_seqs :: "string list \<Rightarrow> string \<Rightarrow> string" where
  "lstrip_seqs ws s =
     (case find (\<lambda>w. w \<noteq> [] \<and> take (length w) s = w) ws of
        None \<Rightarrow> s
      | Some w \<Rightarrow> lstrip_seqs ws (drop (length w) s))"
  by pat_completeness auto
termination
proof (relation "measure (\<lambda>(ws, s). length s)")
  show "wf (measure (\<lambda>(ws, s). length s))" by simp
next
  fix ws :: "string list" and s w :: string
  assume "find (\<lambda>w. w \<noteq> [] \<and> take (length w) s = w) ws = Some w"
  then have w: "w \<noteq> []" and t: "take (length w) s = w"
    by (auto simp: find_Some_iff)
  from t have "length (take (length w) s) = length w" by simp
  then have "length w \<le> length s" by simp
  moreover from w have "0 < length w" by simp
  ultimately have "length s - length w < length s" by arith
  then show "((ws, drop (length w) s), (ws, s)) \<in> measure (\<lambda>(ws, s). length s)"
    by simp
qed

declare lstrip_seqs.simps [simp del]

definition strip :: "string \<Rightarrow> string" where
  "strip s = rev (lstrip_seqs (map rev whitespace) (rev (lstrip_seqs whitespace s)))"

text \<open>A string that is empty or made of whitespace characters only.\<close>

inductive blank :: "string \<Rightarrow> bool" where
  blank_Nil: "blank []"
| blank_app: "w \<in> set whitespace \<Longrightarrow> blank s \<Longrightarrow> blank (w @ s)"

code_pred blank .

text \<open>
  \<open>x or default\<close> where \<open>x\<close> is the result of \<open>request.form.get\<close>: \<open>None\<close> and the
  empty string are both falsy.
\<close>

definition py_or :: "string option \<Rightarrow> string \<Rightarrow> string" where
  "py_or x dflt = (case x of None \<Rightarrow> dflt | Some s \<Rightarrow> if s = [] then dflt else s)"

text \<open>
  A \<open>date\<close> is (year, month, day); a naive \<open>datetime\<close> is (year, month, day, hour, minute,
  second, microsecond). Both are ordered lexicographically, as Python and SQL order them.
\<close>

type_synonym date = "nat \<times> nat \<times> nat"
type_synonym datetime = "nat \<times> nat \<times> nat \<times> nat \<times> nat \<times> nat \<times> nat"

text \<open>The decimal digits of a natural number; \<open>digit_char\<close> is only applied below 10.\<close>

definition digit_char :: "nat \<Rightarrow> char" where
  "digit_char n = ''0123456789'' ! n"

function dec :: "nat \<Rightarrow> string" where
  "dec n = (if n < 10 then [digit_char n] else dec (n div 10) @ [digit_char (n mod 10)])"
  by pat_completeness auto
termination
  by (relation "measure (\<lambda>n. n)") auto

declare dec.simps [simp del]

text \<open>The format \<open>%0wd\<close> of a non-negative integer: decimal digits, zero-padded to width w.\<close>

definition fmt_d :: "nat \<Rightarrow> nat \<Rightarrow> string" where
  "fmt_d w n = replicate (w - length (dec n)) CHR ''0'' @ dec n"

definition date_isoformat :: "date \<Rightarrow> string" where
  "date_isoformat dt =
     (case dt of (y, m, d) \<Rightarrow> fmt_d 4 y @ ''-'' @ fmt_d 2 m @ ''-'' @ fmt_d 2 d)"

definition datetime_isoformat :: "datetime \<Rightarrow> string" where
  "datetime_isoformat dt =
     (case dt of (y, mo, d, h, mi, s, us) \<Rightarrow>
        fmt_d 4 y @ ''-'' @ fmt_d 2 mo @ ''-'' @ fmt_d 2 d @ ''T'' @
        fmt_d 2 h @ '':'' @ fmt_d 2 mi @ '':'' @ fmt_d 2 s @
        (if us \<noteq> 0 then ''.'' @ fmt_d 6 us else ''''))"

text \<open>
  The ranges of the fields of a Python \<open>date\<close> and \<open>datetime\<close> (years 1 to 9999), and
  the shape of what \<open>isoformat\<close> gives for them: \<open>YYYY-MM-DD\<close>, and
  \<open>YYYY-MM-DDTHH:MM:SS\<close> with \<open>.ffffff\<close> after it when the microsecond is not zero. In
  a pattern, \<open>d\<close> stands for one decimal digit and every other character for itself.
\<close>

definition date_ok :: "date \<Rightarrow> bool" where
  "date_ok dt =
     (case dt of (y, m, d) \<Rightarrow>
        1 \<le> y \<and> y \<le> 9999 \<and> 1 \<le> m \<and> m \<le> 12 \<and> 1 \<le> d \<and> d \<le> 31)"

definition datetime_ok :: "datetime \<Rightarrow> bool" where
  "datetime_ok t =
     (case t of (y, mo, d, h, mi, s, us) \<Rightarrow>
        date_ok (y, mo, d) \<and> h \<le> 23 \<and> mi \<le> 59 \<and> s \<le> 59 \<and> us \<le> 999999)"

definition is_digit :: "char \<Rightarrow> bool" where
  "is_digit c = (c \<in> set ''0123456789'')"

fun matches :: "string \<Rightarrow> string \<Rightarrow> bool" where
  "matches [] [] = True"
| "matches (p # ps) (c # cs) = ((if p = CHR ''d'' then is_digit c else c = p) \<and> matches ps cs)"
| "matches _ _ = False"

definition iso_date :: "string \<Rightarrow> bool" where
  "iso_date s = matches ''dddd-dd-dd'' s"

definition iso_datetime :: "string \<Rightarrow> bool" where
  "iso_datetime s =
     (matches ''dddd-dd-ddTdd:dd:dd'' s \<or> matches ''dddd-dd-ddTdd:dd:dd.dddddd'' s)"

datatype json = JNull | JInt int | JStr string

section \<open>The model class \<open>Practice\<close>\<close>

text \<open>
  One row of the table \<open>pratiche\<close>, as the Python object holds it: the attributes that
  can be \<open>None\<close> on the object are options. \<open>id_col\<close> is the column \<open>id\<close> (\<open>None\<close>
  until the row is inserted) and \<open>note_col\<close> the column \<open>note\<close>.
\<close>

record practice =
  id_col :: "int option"
  cliente :: string
  oggetto :: string
  stato :: string
  data_apertura :: "date option"
  data_chiusura :: "date option"
  note_col :: "string option"
  updated_at :: "datetime option"
  updated_by :: "string option"
  created_at :: "datetime option"
  created_by :: "string option"

definition to_dict :: "practice \<Rightarrow> (string \<times> json) list" where
  "to_dict self =
     [(''id'', case id_col self of None \<Rightarrow> JNull | Some i \<Rightarrow> JInt i),
      (''cliente'', JStr (cliente self)),
      (''oggetto'', JStr (oggetto self)),
      (''stato'', JStr (stato self)),
      (''data_apertura'',
         case data_apertura self of None \<Rightarrow> JNull | Some d \<Rightarrow> JStr (date_isoformat d)),
      (''data_chiusura'',
         case data_chiusura self of None \<Rightarrow> JNull | Some d \<Rightarrow> JStr (date_isoformat d)),
      (''note'', JStr (py_or (note_col self) '''')),
      (''updated_at'',
         case updated_at self of None \<Rightarrow> JNull | Some t \<Rightarrow> JStr (datetime_isoformat t)),
      (''updated_by'', JStr (py_or (updated_by self) ''''))]"

section \<open>Storage, request and environment\<close>

text \<open>
  The table is the list of its rows in insertion order, with the counter that assigns the
  next primary key. Failures of the database itself (connectivity, column sizes) are
  outside the model.
\<close>

record db =
  rows :: "practice list"
  next_id :: int

text \<open>
  What a handler reads besides the request and the database: the \<open>username\<close> of
  \<open>current_user\<close> (\<open>None\<close> when the session is anonymous and the attribute is missing),
  \<open>date.today()\<close>, \<open>datetime.utcnow()\<close> as called in the handler,
  \<open>datetime.utcnow()\<close> as called for a column default when a row is inserted, and the
  library function \<open>str.upper\<close>.
\<close>

record env =
  current_user :: "string option"
  today :: date
  utcnow :: datetime
  utcnow_insert :: datetime
  str_upper :: "string \<Rightarrow> string"

datatype http_method = GET | POST

text \<open>\<open>req_method\<close> is \<open>request.method\<close>.\<close>

record request =
  req_method :: http_method
  form :: "string \<rightharpoonup> string"
  args :: "string \<rightharpoonup> string"

text \<open>
  A response: the form template with its mode, the record shown and the message flashed
  (text and category); a redirect to the list filtered by a status, with the message
  flashed; a 404; the \<open>AttributeError\<close> of an anonymous \<open>current_user\<close>; a JSON array.
\<close>

datatype response =
    Render_form string "practice option" "(string \<times> string) option"
  | Redirect_pratiche string "string \<times> string"
  | Abort_404
  | Attribute_error
  | Jsonify "(string \<times> json) list list"

definition get_or_404 :: "db \<Rightarrow> int \<Rightarrow> practice option" where
  "get_or_404 d pid = find (\<lambda>q. id_col q = Some pid) (rows d)"

text \<open>
  \<open>db.session.add(p); db.session.commit()\<close>: the row gets the next primary key, and the
  columns with a default that the constructor left unset get it.
\<close>

definition db_add :: "env \<Rightarrow> practice \<Rightarrow> db \<Rightarrow> db" where
  "db_add e p d =
     d\<lparr>rows := rows d @
          [p\<lparr>id_col := Some (next_id d),
             data_apertura :=
               (case data_apertura p of None \<Rightarrow> Some (today e) | Some x \<Rightarrow> Some x),
             updated_at :=
               (case updated_at p of None \<Rightarrow> Some (utcnow_insert e) | Some x \<Rightarrow> Some x),
             created_at :=
               (case created_at p of None \<Rightarrow> Some (utcnow_insert e) | Some x \<Rightarrow> Some x)\<rparr>],
       next_id := next_id d + 1\<rparr>"

text \<open>\<open>db.session.commit()\<close> after the attributes of a loaded row were assigned.\<close>

definition db_update :: "practice \<Rightarrow> db \<Rightarrow> db" where
  "db_update p d = d\<lparr>rows := map (\<lambda>q. if id_col q = id_col p then p else q) (rows d)\<rparr>"

text \<open>\<open>db.session.delete(p); db.session.commit()\<close>.\<close>

definition db_delete :: "practice \<Rightarrow> db \<Rightarrow> db" where
  "db_delete p d = d\<lparr>rows := filter (\<lambda>q. id_col q \<noteq> id_col p) (rows d)\<rparr>"

text \<open>
  \<open>Practice.query.filter_by(stato=stato).order_by(Practice.updated_at.desc()).all()\<close>.
  SQL leaves the order of rows with equal \<open>updated_at\<close> open; the model takes one of them.
\<close>

definition query_stato :: "string \<Rightarrow> db \<Rightarrow> practice list" where
  "query_stato s d = rev (sort_key updated_at (filter (\<lambda>q. stato q = s) (rows d)))"

section \<open>Routes\<close>

definition stati :: "string list" where
  "stati = [''NUOVA'', ''ATTIVA'', ''CHIUSA'']"

definition obbligatori :: "string \<times> string" where
  "obbligatori = (''Cliente e Oggetto sono obbligatori.'', ''error'')"

definition api_stato :: "env \<Rightarrow> request \<Rightarrow> string" where
  "api_stato e req =
     (let stato0 =
            str_upper e (case args req ''stato'' of None \<Rightarrow> ''ATTIVA'' | Some s \<Rightarrow> s)
      in if stato0 \<notin> set stati then ''ATTIVA'' else stato0)"

definition api_pratiche :: "env \<Rightarrow> request \<Rightarrow> db \<Rightarrow> response" where
  "api_pratiche e req d = Jsonify (map to_dict (query_stato (api_stato e req) d))"

text \<open>A text field of the form: \<open>(request.form.get(k) or "").strip()\<close>.\<close>

definition form_field :: "request \<Rightarrow> string \<Rightarrow> string" where
  "form_field req k = strip (py_or (form req k) '''')"

text \<open>The status a POST to \<open>/pratiche/nuova\<close> resolves to.\<close>

definition nuova_stato :: "env \<Rightarrow> request \<Rightarrow> string" where
  "nuova_stato e req =
     (let stato0 = str_upper e (py_or (form req ''stato'') ''NUOVA'')
      in if stato0 \<notin> set stati then ''NUOVA'' else stato0)"

definition pratica_nuova :: "env \<Rightarrow> request \<Rightarrow> db \<Rightarrow> response \<times> db" where
  "pratica_nuova e req d =
     (if req_method req = POST then
        if form_field req ''cliente'' = [] \<or> form_field req ''oggetto'' = [] then
          (Render_form ''new'' None (Some obbligatori), d)
        else
          (case current_user e of
             None \<Rightarrow> (Attribute_error, d)
           | Some username \<Rightarrow>
               (Redirect_pratiche (nuova_stato e req) (''Pratica creata.'', ''ok''),
                db_add e
                  \<lparr>id_col = None, cliente = form_field req ''cliente'',
                   oggetto = form_field req ''oggetto'', stato = nuova_stato e req,
                   data_apertura = Some (today e), data_chiusura = None,
                   note_col = Some (form_field req ''note''), updated_at = Some (utcnow e),
                   updated_by = Some username, created_at = None,
                   created_by = Some username\<rparr>
                  d))
      else (Render_form ''new'' None None, d))"

text \<open>The status a POST to \<open>/pratiche/<pid>/modifica\<close> resolves to, for the loaded row.\<close>

definition modifica_stato :: "env \<Rightarrow> practice \<Rightarrow> request \<Rightarrow> string" where
  "modifica_stato e p req =
     (let stato0 = str_upper e (py_or (form req ''stato'') (stato p))
      in if stato0 \<notin> set stati then stato p else stato0)"

text \<open>
  The assignments to the loaded row up to \<open>p.updated_at\<close>: the four form fields, the
  closing date, the time of the update.
\<close>

definition modifica_assign :: "env \<Rightarrow> request \<Rightarrow> practice \<Rightarrow> practice" where
  "modifica_assign e req p =
     (let stato' = modifica_stato e p req;
          p1 = p\<lparr>cliente := form_field req ''cliente'', oggetto := form_field req ''oggetto'',
                 stato := stato', note_col := Some (form_field req ''note'')\<rparr>;
          p2 = (if stato' = ''CHIUSA'' \<and> data_chiusura p1 = None
                then p1\<lparr>data_chiusura := Some (today e)\<rparr> else p1);
          p3 = (if stato' \<noteq> ''CHIUSA'' then p2\<lparr>data_chiusura := None\<rparr> else p2)
      in p3\<lparr>updated_at := Some (utcnow e)\<rparr>)"

definition pratica_modifica :: "env \<Rightarrow> request \<Rightarrow> int \<Rightarrow> db \<Rightarrow> response \<times> db" where
  "pratica_modifica e req pid d =
     (case get_or_404 d pid of
        None \<Rightarrow> (Abort_404, d)
      | Some p \<Rightarrow>
          if req_method req = POST then
            if form_field req ''cliente'' = [] \<or> form_field req ''oggetto'' = [] then
              (Render_form ''edit'' (Some p) (Some obbligatori), d)
            else
              (case current_user e of
                 None \<Rightarrow> (Attribute_error, d)
               | Some username \<Rightarrow>
                   (Redirect_pratiche (modifica_stato e p req) (''Pratica aggiornata.'', ''ok''),
                    db_update ((modifica_assign e req p)\<lparr>updated_by := Some username\<rparr>) d))
          else (Render_form ''edit'' (Some p) None, d))"

definition pratica_elimina :: "int \<Rightarrow> db \<Rightarrow> response \<times> db" where
  "pratica_elimina pid d =
     (case get_or_404 d pid of
        None \<Rightarrow> (Abort_404, d)
      | Some p \<Rightarrow> (Redirect_pratiche (stato p) (''Pratica eliminata.'', ''ok''), db_delete p d))"

text \<open>
  The relation between the status and the closing date that the edit route maintains
  (\<open>se diventa CHIUSA metto oggi, se esce da CHIUSA la tolgo\<close>): a closing date is
  present exactly when the status is \<open>CHIUSA\<close>.
\<close>

definition chiusura_ok :: "practice \<Rightarrow> bool" where
  "chiusura_ok p = ((data_chiusura p \<noteq> None) = (stato p = ''CHIUSA''))"

text \<open>
  \<open>id\<close> is the primary key: the rows of a table have distinct keys, each one assigned
  by the counter. Every route keeps this (lemmas \<open>db_ok_pratica_nuova\<close>,
  \<open>db_ok_pratica_modifica\<close>, \<open>db_ok_pratica_elimina\<close>).
\<close>

definition db_ok :: "db \<Rightarrow> bool" where
  "db_ok d =
     (distinct (map id_col (rows d)) \<and>
      list_all (\<lambda>q. case id_col q of None \<Rightarrow> False | Some i \<Rightarrow> i < next_id d) (rows d))"

section \<open>Example data\<close>

text \<open>
  Environments, forms posted and tables, for the concrete instances. In the environments
  \<open>str_upper\<close> is the upper-casing of ASCII letters, which is what \<open>str.upper\<close> does on
  the strings of the instances.
\<close>

definition env0 :: env where
  "env0 = \<lparr>current_user = Some ''admin'', today = (2024, 5, 1),
           utcnow = (2024, 5, 1, 10, 0, 0, 0), utcnow_insert = (2024, 5, 1, 10, 0, 0, 7),
           str_upper = ascii_upper\<rparr>"

definition post :: "string \<Rightarrow> string \<Rightarrow> string \<Rightarrow> string \<Rightarrow> request" where
  "post c og s n =
     \<lparr>req_method = POST,
      form = [''cliente'' \<mapsto> c, ''oggetto'' \<mapsto> og, ''stato'' \<mapsto> s, ''note'' \<mapsto> n],
      args = Map.empty\<rparr>"

definition row1 :: practice where
  "row1 = \<lparr>id_col = Some 1, cliente = ''Acme'', oggetto = ''Contract review'',
           stato = ''ATTIVA'', data_apertura = Some (2024, 4, 2), data_chiusura = None,
           note_col = Some '''', updated_at = Some (2024, 4, 2, 9, 30, 0, 0),
           updated_by = Some ''collab'', created_at = Some (2024, 4, 2, 9, 30, 0, 12),
           created_by = Some ''collab''\<rparr>"

definition row2 :: practice where
  "row2 = \<lparr>id_col = Some 2, cliente = ''Bianchi'', oggetto = ''Ricorso'',
           stato = ''CHIUSA'', data_apertura = Some (2024, 3, 1),
           data_chiusura = Some (2024, 4, 20), note_col = None,
           updated_at = Some (2024, 4, 20, 16, 5, 9, 250), updated_by = None,
           created_at = Some (2024, 3, 1, 8, 0, 0, 3), created_by = Some ''admin''\<rparr>"

definition db0 :: db where
  "db0 = \<lparr>rows = [row1, row2], next_id = 3\<rparr>"

definition db_empty :: db where
  "db_empty = \<lparr>rows = [], next_id = 1\<rparr>"

definition env1 :: env where
  "env1 = \<lparr>current_user = Some ''collab'', today = (2024, 5, 2),
           utcnow = (2024, 5, 2, 8, 15, 0, 0), utcnow_insert = (2024, 5, 2, 8, 15, 0, 4),
           str_upper = ascii_upper\<rparr>"

definition env2 :: env where
  "env2 = \<lparr>current_user = Some ''admin'', today = (2024, 5, 3),
           utcnow = (2024, 5, 3, 17, 45, 30, 0), utcnow_insert = (2024, 5, 3, 17, 45, 30, 9),
           str_upper = ascii_upper\<rparr>"

definition req_chiusa :: request where
  "req_chiusa = post ''Acme'' ''Contract review'' ''CHIUSA'' ''''"

definition req_attiva :: request where
  "req_attiva = post ''Acme'' ''Contract review'' ''attiva'' ''riaperta''"

definition row3 :: practice where
  "row3 = \<lparr>id_col = Some 3, cliente = ''Verdi'', oggetto = ''Successione'',
           stato = ''ATTIVA'', data_apertura = Some (2024, 4, 10), data_chiusura = None,
           note_col = Some ''in attesa'', updated_at = Some (2024, 4, 28, 11, 0, 0, 0),
           updated_by = Some ''admin'', created_at = Some (2024, 4, 10, 15, 20, 0, 1),
           created_by = Some ''admin''\<rparr>"

definition db3 :: db where
  "db3 = \<lparr>rows = [row1, row2, row3], next_id = 4\<rparr>"

definition get_stato :: "string option \<Rightarrow> request" where
  "get_stato s =
     \<lparr>req_method = GET, form = Map.empty,
      args = (\<lambda>k. if k = ''stato'' then s else None)\<rparr>"

definition req_blank :: request where
  "req_blank =
     post [CHR 0xC2, CHR 0xA0, CHR 0x20, CHR 0xE3, CHR 0x80, CHR 0x80] ''Ricorso'' ''ATTIVA'' ''x''"

definition req_bogus :: request where
  "req_bogus = post ''Rossi'' ''Parere'' ''bogus'' ''''"

definition req_mixed :: request where
  "req_mixed = post ''Rossi'' ''Parere'' ''ChIuSa'' ''''"

section \<open>Auxiliary facts\<close>

lemmas eval_defs = env0_def env1_def env2_def post_def req_chiusa_def req_attiva_def
  row1_def row2_def db0_def pratica_nuova_def pratica_modifica_def
  pratica_elimina_def db_add_def db_update_def db_delete_def get_or_404_def form_field_def
  nuova_stato_def modifica_stato_def modifica_assign_def py_or_def strip_def
  lstrip_seqs.simps whitespace_def ascii_upper_def upper_char_def stati_def obbligatori_def
  Let_def

text \<open>The table of \<open>upper_char\<close> is the shift by 32 of the codes 97 to 122.\<close>

lemma upper_char_code:
  "(of_char (upper_char c) :: nat) =
     (if 97 \<le> (of_char c :: nat) \<and> (of_char c :: nat) \<le> 122
      then of_char c - 32 else of_char c)"
  by (cases c) (simp add: upper_char_def)

lemma upper_ok_ascii_upper: "upper_ok ascii_upper"
  by (simp add: upper_ok_def)

lemma upper_ok_stati: "upper_ok f \<Longrightarrow> s \<in> set stati \<Longrightarrow> f s = s"
  by (auto simp: upper_ok_def stati_def ascii_def ascii_upper_def upper_char_def)

lemma upper_ok_Nil: "upper_ok f \<Longrightarrow> f [] = []"
  by (simp add: upper_ok_def ascii_def ascii_upper_def)

lemma whitespace_code_points:
  "map (map of_char) whitespace =
     map utf8
       [0x09, 0x0A, 0x0B, 0x0C, 0x0D, 0x1C, 0x1D, 0x1E, 0x1F, 0x20, 0x85, 0xA0, 0x1680,
        0x2000, 0x2001, 0x2002, 0x2003, 0x2004, 0x2005, 0x2006, 0x2007, 0x2008, 0x2009,
        0x200A, 0x2028, 0x2029, 0x202F, 0x205F, 0x3000]"
  by (simp add: whitespace_def utf8_def)

lemma whitespace_length:
  "w \<in> set whitespace \<Longrightarrow>
   w \<noteq> [] \<and>
   length w =
     (if hd w = CHR 0xC2 then 2
      else if hd w \<in> {CHR 0xE1, CHR 0xE2, CHR 0xE3} then 3 else 1)"
  by (auto simp: whitespace_def)

lemma whitespace_prefix_unique:
  assumes "w \<in> set whitespace" and "w' \<in> set whitespace"
    and "take (length w') (w @ s) = w'"
  shows "w' = w"
proof -
  from whitespace_length [OF assms(1)] whitespace_length [OF assms(2)]
  have ne: "w \<noteq> []" "w' \<noteq> []" by simp_all
  then have "hd w' = hd (take (length w') (w @ s))" using assms(3) by simp
  also have "\<dots> = hd w" using ne by (simp add: hd_take)
  finally have "length w' = length w"
    using whitespace_length [OF assms(1)] whitespace_length [OF assms(2)] by simp
  with assms(3) show ?thesis by simp
qed

lemma lstrip_seqs_Nil: "lstrip_seqs ws [] = []"
proof -
  have "find (\<lambda>w. w \<noteq> [] \<and> take (length w) [] = w) ws = None"
    by (auto simp: find_None_iff)
  then show ?thesis by (subst lstrip_seqs.simps) simp
qed

lemma lstrip_blank: "blank s \<Longrightarrow> lstrip_seqs whitespace s = []"
proof (induction rule: blank.induct)
  case blank_Nil
  show ?case by (rule lstrip_seqs_Nil)
next
  case (blank_app w s)
  let ?P = "\<lambda>v. v \<noteq> [] \<and> take (length v) (w @ s) = v"
  from whitespace_length [OF blank_app(1)] have "?P w" by simp
  with blank_app(1) have "find ?P whitespace \<noteq> None"
    by (auto simp: find_None_iff)
  then obtain w' where f: "find ?P whitespace = Some w'" by auto
  then have m: "w' \<in> set whitespace" and t: "take (length w') (w @ s) = w'"
    by (auto simp: find_Some_iff)
  have "w' = w" by (rule whitespace_prefix_unique [OF blank_app(1) m t])
  with f have "lstrip_seqs whitespace (w @ s) = lstrip_seqs whitespace s"
    by (subst lstrip_seqs.simps) simp
  with blank_app.IH show ?case by simp
qed

lemma strip_blank: "blank s \<Longrightarrow> strip s = []"
  by (simp add: strip_def lstrip_blank lstrip_seqs_Nil)

lemma get_or_404_id: "get_or_404 d pid = Some p \<Longrightarrow> id_col p = Some pid"
  by (auto simp: get_or_404_def find_Some_iff)

lemma find_map_replace:
  "id_col p' = Some pid \<Longrightarrow>
   find (\<lambda>q. id_col q = Some pid) (map (\<lambda>q. if id_col q = Some pid then p' else q) xs) =
     (case find (\<lambda>q. id_col q = Some pid) xs of None \<Rightarrow> None | Some _ \<Rightarrow> Some p')"
  by (induction xs) auto

lemma find_map_other:
  "id_col p' = Some pid \<Longrightarrow> k \<noteq> pid \<Longrightarrow>
   find (\<lambda>q. id_col q = Some k) (map (\<lambda>q. if id_col q = Some pid then p' else q) xs) =
     find (\<lambda>q. id_col q = Some k) xs"
  by (induction xs) auto

lemma get_or_404_db_update:
  "get_or_404 d pid = Some p \<Longrightarrow> id_col p' = Some pid \<Longrightarrow>
   get_or_404 (db_update p' d) pid = Some p'"
  by (simp add: get_or_404_def db_update_def find_map_replace)

lemma get_or_404_db_update_other:
  "id_col p' = Some pid \<Longrightarrow> k \<noteq> pid \<Longrightarrow>
   get_or_404 (db_update p' d) k = get_or_404 d k"
  by (simp add: get_or_404_def db_update_def find_map_other)

lemma modifica_assign_frame:
  "id_col (modifica_assign e req p) = id_col p"
  "data_apertura (modifica_assign e req p) = data_apertura p"
  "created_at (modifica_assign e req p) = created_at p"
  "created_by (modifica_assign e req p) = created_by p"
  by (simp_all add: modifica_assign_def Let_def)

lemma modifica_assign_fields:
  "cliente (modifica_assign e req p) = form_field req ''cliente''"
  "oggetto (modifica_assign e req p) = form_field req ''oggetto''"
  "stato (modifica_assign e req p) = modifica_stato e p req"
  "note_col (modifica_assign e req p) = Some (form_field req ''note'')"
  "updated_at (modifica_assign e req p) = Some (utcnow e)"
  by (simp_all add: modifica_assign_def Let_def)

lemma modifica_assign_data_chiusura:
  "data_chiusura (modifica_assign e req p) =
     (if modifica_stato e p req = ''CHIUSA''
      then (case data_chiusura p of None \<Rightarrow> Some (today e) | Some c \<Rightarrow> Some c)
      else None)"
  by (simp add: modifica_assign_def Let_def split: option.splits)

lemma pratica_nuova_redirect:
  assumes "pratica_nuova e req d = (Redirect_pratiche s m, d')"
  shows "\<exists>u. req_method req = POST \<and> form_field req ''cliente'' \<noteq> [] \<and>
           form_field req ''oggetto'' \<noteq> [] \<and> current_user e = Some u \<and>
           s = nuova_stato e req \<and>
           d' = db_add e
                  \<lparr>id_col = None, cliente = form_field req ''cliente'',
                   oggetto = form_field req ''oggetto'', stato = nuova_stato e req,
                   data_apertura = Some (today e), data_chiusura = None,
                   note_col = Some (form_field req ''note''), updated_at = Some (utcnow e),
                   updated_by = Some u, created_at = None, created_by = Some u\<rparr> d"
  using assms by (auto simp: pratica_nuova_def split: if_splits option.splits)

lemma pratica_modifica_redirect:
  assumes "pratica_modifica e req pid d = (Redirect_pratiche s m, d')"
  shows "\<exists>p u. get_or_404 d pid = Some p \<and> req_method req = POST \<and>
           form_field req ''cliente'' \<noteq> [] \<and> form_field req ''oggetto'' \<noteq> [] \<and>
           current_user e = Some u \<and> s = modifica_stato e p req \<and>
           d' = db_update ((modifica_assign e req p)\<lparr>updated_by := Some u\<rparr>) d \<and>
           get_or_404 d' pid = Some ((modifica_assign e req p)\<lparr>updated_by := Some u\<rparr>)"
proof -
  from assms obtain p where p: "get_or_404 d pid = Some p"
    by (auto simp: pratica_modifica_def split: option.splits)
  with assms obtain u where u: "current_user e = Some u" and post: "req_method req = POST"
    and c: "form_field req ''cliente'' \<noteq> []" and og: "form_field req ''oggetto'' \<noteq> []"
    and s: "s = modifica_stato e p req"
    and d': "d' = db_update ((modifica_assign e req p)\<lparr>updated_by := Some u\<rparr>) d"
    by (auto simp: pratica_modifica_def split: if_splits option.splits)
  have "id_col ((modifica_assign e req p)\<lparr>updated_by := Some u\<rparr>) = Some pid"
    using get_or_404_id [OF p] by (simp add: modifica_assign_frame)
  then have "get_or_404 d' pid = Some ((modifica_assign e req p)\<lparr>updated_by := Some u\<rparr>)"
    unfolding d' using p by (rule get_or_404_db_update [rotated])
  with p u post c og s d' show ?thesis by blast
qed

lemma modifica_stato_valid:
  "stato p \<in> set stati \<Longrightarrow> modifica_stato e p req \<in> set stati"
  by (simp add: modifica_stato_def Let_def)

lemma nuova_stato_valid: "nuova_stato e req \<in> set stati"
  by (simp add: nuova_stato_def Let_def) (simp add: stati_def)

lemma nuova_stato_cases:
  assumes "upper_ok (str_upper e)"
  shows "nuova_stato e req =
     (case form req ''stato'' of
        None \<Rightarrow> ''NUOVA''
      | Some x \<Rightarrow> if str_upper e x \<in> set stati then str_upper e x else ''NUOVA'')"
proof -
  have n: "str_upper e ''NUOVA'' = ''NUOVA''"
    using upper_ok_stati [OF assms, of "''NUOVA''"] by (simp add: stati_def)
  have "str_upper e [] \<notin> set stati"
    using upper_ok_Nil [OF assms] by (simp add: stati_def)
  with n show ?thesis
    by (simp add: nuova_stato_def py_or_def Let_def split: option.splits)
qed

lemma modifica_stato_cases:
  assumes "upper_ok (str_upper e)" and "stato p \<in> set stati"
  shows "modifica_stato e p req =
     (case form req ''stato'' of
        None \<Rightarrow> stato p
      | Some x \<Rightarrow> if str_upper e x \<in> set stati then str_upper e x else stato p)"
proof -
  have n: "str_upper e (stato p) = stato p"
    using upper_ok_stati [OF assms] .
  have "str_upper e [] \<notin> set stati"
    using upper_ok_Nil [OF assms(1)] by (simp add: stati_def)
  with n assms(2) show ?thesis
    by (simp add: modifica_stato_def py_or_def Let_def split: option.splits)
qed

lemma modifica_assign_chiusura_ok: "chiusura_ok ((modifica_assign e req p)\<lparr>updated_by := u\<rparr>)"
  by (cases "data_chiusura p")
    (simp_all add: chiusura_ok_def modifica_assign_data_chiusura modifica_assign_fields
      del: not_None_eq)

lemma get_or_404_db0 [simp]: "get_or_404 db0 1 = Some row1" "get_or_404 db0 2 = Some row2"
  by (simp_all add: get_or_404_def db0_def row1_def row2_def)

lemma pratica_modifica_data_chiusura:
  assumes "get_or_404 d pid = Some p"
    and "pratica_modifica e req pid d = (Redirect_pratiche s m, d')"
  shows "map_option data_chiusura (get_or_404 d' pid) =
           Some (if s = ''CHIUSA''
                 then (case data_chiusura p of None \<Rightarrow> Some (today e) | Some c \<Rightarrow> Some c)
                 else None)"
  using pratica_modifica_redirect [OF assms(2)] assms(1)
  by (auto simp: modifica_assign_data_chiusura)

lemma pratica_modifica_found:
  assumes "pratica_modifica e req pid d = (Redirect_pratiche s m, d')"
  shows "\<exists>p q. get_or_404 d pid = Some p \<and> get_or_404 d' pid = Some q"
  using pratica_modifica_redirect [OF assms] by blast

lemma find_filter_other:
  "k \<noteq> pid \<Longrightarrow>
   find (\<lambda>q. id_col q = Some k) (filter (\<lambda>q. id_col q \<noteq> Some pid) xs) =
     find (\<lambda>q. id_col q = Some k) xs"
  by (induction xs) auto

lemma find_filter_same:
  "find (\<lambda>q. id_col q = Some pid) (filter (\<lambda>q. id_col q \<noteq> Some pid) xs) = None"
  by (induction xs) auto

lemma mset_filter_distinct:
  "distinct (map id_col xs) \<Longrightarrow> find (\<lambda>q. id_col q = Some pid) xs = Some p \<Longrightarrow>
   mset xs = add_mset p (mset (filter (\<lambda>q. id_col q \<noteq> Some pid) xs))"
proof (induction xs)
  case Nil
  then show ?case by simp
next
  case (Cons x xs)
  show ?case
  proof (cases "id_col x = Some pid")
    case True
    with Cons.prems have px: "p = x" and nin: "Some pid \<notin> id_col ` set xs" by auto
    from nin have "filter (\<lambda>q. id_col q \<noteq> Some pid) xs = xs"
      by (auto simp: filter_id_conv image_iff)
    with True px show ?thesis by simp
  next
    case False
    with Cons show ?thesis by simp
  qed
qed

lemma db_ok_empty: "db_ok db_empty"
  by (simp add: db_ok_def db_empty_def)

lemma db_ok_db0: "db_ok db0"
  by (simp add: db_ok_def db0_def row1_def row2_def)

lemma db_ok_db_add: "db_ok d \<Longrightarrow> db_ok (db_add e p d)"
  by (fastforce simp: db_ok_def db_add_def list_all_iff split: option.splits)

lemma map_id_col_replace:
  "map id_col (map (\<lambda>q. if id_col q = id_col p then p else q) xs) = map id_col xs"
  by (induction xs) auto

lemma db_ok_db_update:
  assumes "db_ok d" and "get_or_404 d pid = Some p" and "id_col p' = Some pid"
  shows "db_ok (db_update p' d)"
proof -
  let ?f = "\<lambda>q. if id_col q = id_col p' then p' else q"
  from assms(2) have "p \<in> set (rows d)" and "id_col p = Some pid"
    by (auto simp: get_or_404_def find_Some_iff)
  with assms(1) have lt: "pid < next_id d"
    by (auto simp: db_ok_def list_all_iff)
  have "distinct (map id_col (map ?f (rows d)))"
    using assms(1) unfolding map_id_col_replace by (simp add: db_ok_def)
  moreover have "list_all (\<lambda>q. case id_col q of None \<Rightarrow> False | Some i \<Rightarrow> i < next_id d)
      (map ?f (rows d))"
    using assms(1) assms(3) lt by (auto simp: db_ok_def list_all_iff)
  ultimately show ?thesis
    by (simp add: db_ok_def db_update_def cong: option.case_cong)
qed

lemma db_ok_db_delete: "db_ok d \<Longrightarrow> db_ok (db_delete p d)"
  by (auto simp: db_ok_def db_delete_def list_all_iff distinct_map_filter split: option.splits)

lemma db_ok_pratica_nuova: "db_ok d \<Longrightarrow> db_ok (snd (pratica_nuova e req d))"
  by (simp add: pratica_nuova_def db_ok_db_add split: option.splits)

lemma db_ok_pratica_modifica: "db_ok d \<Longrightarrow> db_ok (snd (pratica_modifica e req pid d))"
  by (auto simp: pratica_modifica_def modifica_assign_frame get_or_404_id
      intro!: db_ok_db_update split: option.splits)

lemma db_ok_pratica_elimina: "db_ok d \<Longrightarrow> db_ok (snd (pratica_elimina pid d))"
  by (simp add: pratica_elimina_def db_ok_db_delete split: option.splits)

lemma mset_query_stato:
  "mset (query_stato s d) = mset (filter (\<lambda>q. stato q = s) (rows d))"
  by (simp add: query_stato_def)

lemma sorted_query_stato:
  "sorted_wrt (\<lambda>a b. updated_at b \<le> updated_at a) (query_stato s d)"
proof -
  have "sorted (map updated_at (sort_key updated_at (filter (\<lambda>q. stato q = s) (rows d))))"
    by (rule sorted_sort_key)
  then show ?thesis
    by (simp add: query_stato_def sorted_wrt_rev sorted_wrt_map)
qed

lemma api_stato_valid: "api_stato e req \<in> set stati"
  by (simp add: api_stato_def Let_def) (simp add: stati_def)

lemma api_stato_cases:
  assumes "upper_ok (str_upper e)"
  shows "api_stato e req =
     (case args req ''stato'' of
        None \<Rightarrow> ''ATTIVA''
      | Some x \<Rightarrow> if str_upper e x \<in> set stati then str_upper e x else ''ATTIVA'')"
proof -
  have "str_upper e ''ATTIVA'' = ''ATTIVA''"
    using upper_ok_stati [OF assms, of "''ATTIVA''"] by (simp add: stati_def)
  then show ?thesis
    by (simp add: api_stato_def Let_def split: option.splits)
qed

lemma matches_append:
  "matches p s \<Longrightarrow> matches p' s' \<Longrightarrow> matches (p @ p') (s @ s')"
  by (induction p s rule: matches.induct) auto

lemma matches_digits:
  "list_all is_digit s \<Longrightarrow> matches (replicate (length s) CHR ''d'') s"
  by (induction s) auto

lemma is_digit_digit_char: "k < 10 \<Longrightarrow> is_digit (digit_char k)"
  unfolding is_digit_def digit_char_def by (rule nth_mem) simp

lemma dec_digits: "list_all is_digit (dec n)"
proof (induction n rule: dec.induct)
  case (1 n)
  show ?case
  proof (cases "n < 10")
    case True
    then show ?thesis by (subst dec.simps) (simp add: is_digit_digit_char)
  next
    case False
    with 1 show ?thesis by (subst dec.simps) (simp add: is_digit_digit_char)
  qed
qed

lemma length_dec: "n < 10 ^ w \<Longrightarrow> 0 < w \<Longrightarrow> length (dec n) \<le> w"
proof (induction n arbitrary: w rule: dec.induct)
  case (1 n)
  show ?case
  proof (cases "n < 10")
    case True
    with 1(3) show ?thesis by (subst dec.simps) simp
  next
    case False
    with 1(2) have w: "1 < w" by (cases "w = 1") (use 1(3) in auto)
    then obtain v where v: "w = Suc v" "0 < v" by (cases w) auto
    with 1(2) have "n div 10 < 10 ^ v" by (simp add: less_mult_imp_div_less mult.commute)
    from 1(1) [OF False this v(2)] v(1) False show ?thesis
      by (subst dec.simps) simp
  qed
qed

lemma fmt_d_matches:
  assumes "n < 10 ^ w" and "0 < w"
  shows "matches (replicate w CHR ''d'') (fmt_d w n)"
proof -
  have l: "length (fmt_d w n) = w"
    using length_dec [OF assms] by (simp add: fmt_d_def)
  have z: "is_digit CHR ''0''" by (simp add: is_digit_def)
  have "list_all is_digit (fmt_d w n)"
    using dec_digits [of n] z by (auto simp: fmt_d_def list_all_iff)
  from matches_digits [OF this] l show ?thesis by simp
qed

lemma date_isoformat_iso:
  assumes "y \<le> 9999" and "m \<le> 12" and "d \<le> 31"
  shows "iso_date (date_isoformat (y, m, d))"
proof -
  have r4: "replicate 4 CHR ''d'' = ''dddd''" and r2: "replicate 2 CHR ''d'' = ''dd''"
    by (simp_all add: numeral_eq_Suc)
  have y: "matches ''dddd'' (fmt_d 4 y)"
    using fmt_d_matches [of y 4] assms(1) unfolding r4 by simp
  have m: "matches ''dd'' (fmt_d 2 m)"
    using fmt_d_matches [of m 2] assms(2) unfolding r2 by simp
  have d: "matches ''dd'' (fmt_d 2 d)"
    using fmt_d_matches [of d 2] assms(3) unfolding r2 by simp
  have s: "matches ''-'' ''-''" by simp
  from matches_append [OF y matches_append [OF s matches_append [OF m matches_append [OF s d]]]]
  show ?thesis by (simp add: iso_date_def date_isoformat_def)
qed

lemma date_ok_iso: "date_ok dt \<Longrightarrow> iso_date (date_isoformat dt)"
  by (cases dt) (simp add: date_ok_def date_isoformat_iso)

lemma datetime_ok_iso:
  assumes "datetime_ok t"
  shows "iso_datetime (datetime_isoformat t)"
proof -
  obtain y mo d h mi s us where t: "t = (y, mo, d, h, mi, s, us)"
    by (cases t)
  with assms have ok: "date_ok (y, mo, d)" "h \<le> 23" "mi \<le> 59" "s \<le> 59" "us \<le> 999999"
    by (simp_all add: datetime_ok_def)
  have r6: "replicate 6 CHR ''d'' = ''dddddd''" and r2: "replicate 2 CHR ''d'' = ''dd''"
    by (simp_all add: numeral_eq_Suc)
  have dt: "matches ''dddd-dd-dd'' (date_isoformat (y, mo, d))"
    using date_ok_iso [OF ok(1)] by (simp add: iso_date_def)
  have h: "matches ''dd'' (fmt_d 2 h)"
    using fmt_d_matches [of h 2] ok(2) unfolding r2 by simp
  have mi: "matches ''dd'' (fmt_d 2 mi)"
    using fmt_d_matches [of mi 2] ok(3) unfolding r2 by simp
  have s: "matches ''dd'' (fmt_d 2 s)"
    using fmt_d_matches [of s 2] ok(4) unfolding r2 by simp
  have us: "matches ''dddddd'' (fmt_d 6 us)"
    using fmt_d_matches [of us 6] ok(5) unfolding r6 by simp
  have c: "matches '':'' '':''" and tt: "matches ''T'' ''T''" and dot: "matches ''.'' ''.''"
    by simp_all
  have base: "matches (''dddd-dd-dd'' @ ''T'' @ ''dd'' @ '':'' @ ''dd'' @ '':'' @ ''dd'')
      (date_isoformat (y, mo, d) @ ''T'' @ fmt_d 2 h @ '':'' @ fmt_d 2 mi @ '':'' @ fmt_d 2 s)"
    by (intro matches_append dt tt h c mi s)
  show ?thesis
  proof (cases "us = 0")
    case True
    with base show ?thesis
      by (simp add: t iso_datetime_def datetime_isoformat_def date_isoformat_def)
  next
    case False
    from matches_append [OF base matches_append [OF dot us]] False show ?thesis
      by (simp add: t iso_datetime_def datetime_isoformat_def date_isoformat_def)
  qed
qed

lemma replicate_numeral: "replicate (numeral k) x = x # replicate (pred_numeral k) x"
  by (simp add: numeral_eq_Suc)

lemmas iso_eval = date_isoformat_def datetime_isoformat_def fmt_d_def dec.simps digit_char_def
  replicate_numeral

text \<open>Every route keeps the statuses of the table among the three.\<close>

lemma pratica_nuova_data_chiusura:
  assumes "pratica_nuova e req d = (Redirect_pratiche s m, d')"
  shows "\<exists>q. rows d' = rows d @ [q] \<and> stato q = s \<and> data_chiusura q = None"
  using pratica_nuova_redirect [OF assms] by (auto simp: db_add_def)

lemma stati_pratica_nuova:
  "list_all (\<lambda>q. stato q \<in> set stati) (rows d) \<Longrightarrow>
   list_all (\<lambda>q. stato q \<in> set stati) (rows (snd (pratica_nuova e req d)))"
  by (simp add: pratica_nuova_def db_add_def nuova_stato_valid split: option.splits)

lemma stati_pratica_modifica:
  assumes "list_all (\<lambda>q. stato q \<in> set stati) (rows d)"
  shows "list_all (\<lambda>q. stato q \<in> set stati) (rows (snd (pratica_modifica e req pid d)))"
proof (cases "get_or_404 d pid")
  case None
  with assms show ?thesis by (simp add: pratica_modifica_def)
next
  case (Some p)
  then have "p \<in> set (rows d)" by (auto simp: get_or_404_def find_Some_iff)
  with assms have "stato p \<in> set stati" by (simp add: list_all_iff)
  then have "modifica_stato e p req \<in> set stati" by (rule modifica_stato_valid)
  with assms Some show ?thesis
    by (auto simp: pratica_modifica_def db_update_def list_all_iff modifica_assign_fields
        split: option.splits)
qed

lemma stati_pratica_elimina:
  "list_all (\<lambda>q. stato q \<in> set stati) (rows d) \<Longrightarrow>
   list_all (\<lambda>q. stato q \<in> set stati) (rows (snd (pratica_elimina pid d)))"
  by (auto simp: pratica_elimina_def db_delete_def list_all_iff split: option.splits)

lemma upper_ok_env [simp]:
  "upper_ok (str_upper env0)" "upper_ok (str_upper env1)" "upper_ok (str_upper env2)"
  by (simp_all add: env0_def env1_def env2_def upper_ok_ascii_upper)

section \<open>Creation and the closing date\<close>

text \<open>
  C1. The specification asks that a record created with the status \<open>CHIUSA\<close> has its
  closing date set to today, and one created with another status has none. The create
  route never sets \<open>data_chiusura\<close> (lemma \<open>pratica_nuova_data_chiusura\<close>): a POST with
  the status \<open>CHIUSA\<close> on the empty table succeeds and stores the row with the status
  \<open>CHIUSA\<close> and no closing date.
\<close>

theorem pratica_nuova_chiusa_without_data_chiusura:
  "pratica_nuova env0 (post ''Acme'' ''Contract review'' ''CHIUSA'' '''') db_empty =
   (Redirect_pratiche ''CHIUSA'' (''Pratica creata.'', ''ok''),
    \<lparr>rows =
       [\<lparr>id_col = Some 1, cliente = ''Acme'', oggetto = ''Contract review'',
         stato = ''CHIUSA'', data_apertura = Some (2024, 5, 1), data_chiusura = None,
         note_col = Some '''', updated_at = Some (2024, 5, 1, 10, 0, 0, 0),
         updated_by = Some ''admin'', created_at = Some (2024, 5, 1, 10, 0, 0, 7),
         created_by = Some ''admin''\<rparr>],
     next_id = 2\<rparr>)"
  by (simp add: eval_defs db_empty_def)

text \<open>
  C2. The specification asks that in every state reached by successful creations and
  edits, the closing date is present exactly when the status is \<open>CHIUSA\<close>. Every row
  stored by an edit satisfies it (lemma \<open>modifica_assign_chiusura_ok\<close>); a creation does
  not keep it: from a table where it holds for every row, a successful creation with the
  status \<open>chiusa\<close> leads to a table where it fails.
\<close>

theorem pratica_nuova_breaks_chiusura_ok:
  "list_all chiusura_ok (rows db0) \<and>
   fst (pratica_nuova env0 (post ''Rossi'' ''Parere'' ''chiusa'' ''urgente'') db0) =
     Redirect_pratiche ''CHIUSA'' (''Pratica creata.'', ''ok'') \<and>
   \<not> list_all chiusura_ok
       (rows (snd (pratica_nuova env0 (post ''Rossi'' ''Parere'' ''chiusa'' ''urgente'') db0)))"
  by (simp add: eval_defs chiusura_ok_def)

section \<open>Validation of client and subject\<close>

text \<open>
  C3. A POST to create or to edit whose client or subject is absent, empty or made of
  whitespace characters only (every character for which \<open>str.isspace\<close> holds, ASCII or
  not) is answered with the form and the error message flashed (the validation error),
  and the database is returned as it was: no row is added, and on edit the row loaded is
  not modified.
\<close>

theorem blank_cliente_oggetto_rejected:
  assumes "req_method req = POST"
    and "blank (py_or (form req ''cliente'') '''') \<or> blank (py_or (form req ''oggetto'') '''')"
  shows "pratica_nuova e req d = (Render_form ''new'' None (Some obbligatori), d) \<and>
         (case get_or_404 d pid of
            None \<Rightarrow> pratica_modifica e req pid d = (Abort_404, d)
          | Some p \<Rightarrow>
              pratica_modifica e req pid d = (Render_form ''edit'' (Some p) (Some obbligatori), d))"
proof -
  from assms(2) have "form_field req ''cliente'' = [] \<or> form_field req ''oggetto'' = []"
    by (auto simp: form_field_def strip_blank)
  with assms(1) show ?thesis
    by (simp add: pratica_nuova_def pratica_modifica_def split: option.splits)
qed

theorem blank_cliente_oggetto_rejected_witness:
  "req_method req_blank = POST \<and>
   form req_blank ''cliente'' = Some [CHR 0xC2, CHR 0xA0, CHR 0x20, CHR 0xE3, CHR 0x80, CHR 0x80] \<and>
   blank (py_or (form req_blank ''cliente'') '''') \<and>
   pratica_nuova env0 req_blank db0 = (Render_form ''new'' None (Some obbligatori), db0) \<and>
   pratica_modifica env0 req_blank 2 db0 =
     (Render_form ''edit'' (Some row2) (Some obbligatori), db0)"
proof -
  have m: "req_method req_blank = POST"
    by (simp add: req_blank_def post_def)
  have f: "form req_blank ''cliente'' =
      Some [CHR 0xC2, CHR 0xA0, CHR 0x20, CHR 0xE3, CHR 0x80, CHR 0x80]"
    by (simp add: req_blank_def post_def)
  have "blank ([CHR 0xC2, CHR 0xA0] @ [CHR 0x20] @ [CHR 0xE3, CHR 0x80, CHR 0x80] @ [])"
    by (intro blank.intros) (simp_all add: whitespace_def)
  then have b: "blank (py_or (form req_blank ''cliente'') '''')"
    by (simp add: f py_or_def)
  have g: "get_or_404 db0 2 = Some row2" by simp
  from blank_cliente_oggetto_rejected [OF m disjI1 [OF b], of env0 db0 2] m f b g
  show ?thesis by simp
qed

section \<open>The status stored\<close>

text \<open>
  C4. After a successful creation the row added has one of the three statuses, and after
  a successful edit of a row whose status is one of the three, the row stored has one of
  the three statuses. With \<open>str.upper\<close> as it is on ASCII strings (\<open>upper_ok\<close>), the status
  stored is the upper-cased input, whatever its characters, when that is one of the three;
  when the input is absent or anything else it is \<open>NUOVA\<close> on creation and the status the
  row had on edit.
\<close>

theorem stato_valid_with_fallback:
  "(pratica_nuova e req d = (Redirect_pratiche s m, d') \<longrightarrow>
      (\<exists>q. rows d' = rows d @ [q] \<and> stato q \<in> set stati \<and>
           (upper_ok (str_upper e) \<longrightarrow>
              stato q =
                (case form req ''stato'' of
                   None \<Rightarrow> ''NUOVA''
                 | Some x \<Rightarrow>
                     if str_upper e x \<in> set stati then str_upper e x else ''NUOVA'')))) \<and>
   (get_or_404 d pid = Some p \<and> stato p \<in> set stati \<and>
    pratica_modifica e req pid d = (Redirect_pratiche s m, d') \<longrightarrow>
      (\<exists>q. get_or_404 d' pid = Some q \<and> stato q \<in> set stati \<and>
           (upper_ok (str_upper e) \<longrightarrow>
              stato q =
                (case form req ''stato'' of
                   None \<Rightarrow> stato p
                 | Some x \<Rightarrow>
                     if str_upper e x \<in> set stati then str_upper e x else stato p))))"
proof (intro conjI impI)
  assume a: "pratica_nuova e req d = (Redirect_pratiche s m, d')"
  from pratica_nuova_redirect [OF a]
  obtain q where q: "rows d' = rows d @ [q]" "stato q = nuova_stato e req"
    by (auto simp: db_add_def)
  with nuova_stato_valid [of e req] nuova_stato_cases [of e req] show
    "\<exists>q. rows d' = rows d @ [q] \<and> stato q \<in> set stati \<and>
         (upper_ok (str_upper e) \<longrightarrow>
            stato q =
              (case form req ''stato'' of
                 None \<Rightarrow> ''NUOVA''
               | Some x \<Rightarrow>
                   if str_upper e x \<in> set stati then str_upper e x else ''NUOVA''))"
    by auto
next
  assume a: "get_or_404 d pid = Some p \<and> stato p \<in> set stati \<and>
    pratica_modifica e req pid d = (Redirect_pratiche s m, d')"
  then have p: "get_or_404 d pid = Some p" and v: "stato p \<in> set stati"
    and r: "pratica_modifica e req pid d = (Redirect_pratiche s m, d')"
    by simp_all
  from pratica_modifica_redirect [OF r] p
  obtain q where q: "get_or_404 d' pid = Some q" "stato q = modifica_stato e p req"
    by (auto simp: modifica_assign_fields)
  with modifica_stato_valid [OF v, of e req] modifica_stato_cases [of e p req] v show
    "\<exists>q. get_or_404 d' pid = Some q \<and> stato q \<in> set stati \<and>
         (upper_ok (str_upper e) \<longrightarrow>
            stato q =
              (case form req ''stato'' of
                 None \<Rightarrow> stato p
               | Some x \<Rightarrow>
                   if str_upper e x \<in> set stati then str_upper e x else stato p))"
    by auto
qed

theorem stato_valid_with_fallback_witness:
  "upper_ok (str_upper env0) \<and>
   pratica_nuova env0 req_bogus db0 =
     (Redirect_pratiche ''NUOVA'' (''Pratica creata.'', ''ok''),
      snd (pratica_nuova env0 req_bogus db0)) \<and>
   (\<exists>q. rows (snd (pratica_nuova env0 req_bogus db0)) = rows db0 @ [q] \<and> stato q = ''NUOVA'') \<and>
   get_or_404 db0 2 = Some row2 \<and> stato row2 \<in> set stati \<and>
   pratica_modifica env0 req_bogus 2 db0 =
     (Redirect_pratiche ''CHIUSA'' (''Pratica aggiornata.'', ''ok''),
      snd (pratica_modifica env0 req_bogus 2 db0)) \<and>
   (\<exists>q. get_or_404 (snd (pratica_modifica env0 req_bogus 2 db0)) 2 = Some q \<and>
        stato q = ''CHIUSA'') \<and>
   get_or_404 db0 1 = Some row1 \<and> stato row1 \<in> set stati \<and>
   pratica_modifica env0 req_mixed 1 db0 =
     (Redirect_pratiche ''CHIUSA'' (''Pratica aggiornata.'', ''ok''),
      snd (pratica_modifica env0 req_mixed 1 db0)) \<and>
   (\<exists>q. get_or_404 (snd (pratica_modifica env0 req_mixed 1 db0)) 1 = Some q \<and>
        stato q = ''CHIUSA'')"
proof -
  let ?d1 = "snd (pratica_nuova env0 req_bogus db0)"
  let ?d2 = "snd (pratica_modifica env0 req_bogus 2 db0)"
  let ?d3 = "snd (pratica_modifica env0 req_mixed 1 db0)"
  have ok: "upper_ok (str_upper env0)" by simp
  have c: "pratica_nuova env0 req_bogus db0 =
     (Redirect_pratiche ''NUOVA'' (''Pratica creata.'', ''ok''), ?d1)"
    by (simp add: eval_defs req_bogus_def)
  have g: "get_or_404 db0 2 = Some row2" and g1: "get_or_404 db0 1 = Some row1" by simp_all
  have v: "stato row2 \<in> set stati" and v1: "stato row1 \<in> set stati"
    by (simp_all add: row1_def row2_def stati_def)
  have u: "pratica_modifica env0 req_bogus 2 db0 =
     (Redirect_pratiche ''CHIUSA'' (''Pratica aggiornata.'', ''ok''), ?d2)"
    by (simp add: eval_defs req_bogus_def)
  have u1: "pratica_modifica env0 req_mixed 1 db0 =
     (Redirect_pratiche ''CHIUSA'' (''Pratica aggiornata.'', ''ok''), ?d3)"
    by (simp add: eval_defs req_mixed_def)
  have f: "form req_bogus ''stato'' = Some ''bogus''"
    and f1: "form req_mixed ''stato'' = Some ''ChIuSa''"
    by (simp_all add: req_bogus_def req_mixed_def post_def)
  have b: "str_upper env0 ''bogus'' \<notin> set stati"
    and b1: "str_upper env0 ''ChIuSa'' = ''CHIUSA''" and b2: "''CHIUSA'' \<in> set stati"
    by (simp_all add: env0_def ascii_upper_def upper_char_def stati_def)
  have s2: "stato row2 = ''CHIUSA''"
    by (simp add: row2_def)
  from stato_valid_with_fallback
    [of env0 req_bogus db0 "''NUOVA''" "(''Pratica creata.'', ''ok'')" ?d1]
    c f b ok
  have 1: "\<exists>q. rows ?d1 = rows db0 @ [q] \<and> stato q = ''NUOVA''"
    by auto
  from stato_valid_with_fallback
    [of env0 req_bogus db0 "''CHIUSA''" "(''Pratica aggiornata.'', ''ok'')" ?d2 2 row2]
    g v u f b s2 ok
  have 2: "\<exists>q. get_or_404 ?d2 2 = Some q \<and> stato q = ''CHIUSA''"
    by auto
  from stato_valid_with_fallback
    [of env0 req_mixed db0 "''CHIUSA''" "(''Pratica aggiornata.'', ''ok'')" ?d3 1 row1]
    g1 v1 u1 f1 b1 b2 ok
  have 3: "\<exists>q. get_or_404 ?d3 1 = Some q \<and> stato q = ''CHIUSA''"
    by auto
  from ok c 1 g v u 2 g1 v1 u1 3 show ?thesis by (intro conjI)
qed

section \<open>The closing date across edits\<close>

text \<open>
  C5. A successful edit that resolves to the status \<open>CHIUSA\<close>, of a row whose closing
  date is present, stores the row with the same closing date. Hence after two successful
  edits in succession that both resolve to \<open>CHIUSA\<close>, the closing date after the second
  is the one after the first. (The redirect of a successful edit carries the status it
  resolved to, which is the status stored.)
\<close>

theorem chiusa_again_keeps_data_chiusura:
  "(get_or_404 d pid = Some p \<and> data_chiusura p = Some c \<and>
    pratica_modifica e req pid d = (Redirect_pratiche ''CHIUSA'' m, d') \<longrightarrow>
      map_option data_chiusura (get_or_404 d' pid) = Some (Some c)) \<and>
   (pratica_modifica e1 req1 pid d = (Redirect_pratiche ''CHIUSA'' m1, d1) \<and>
    pratica_modifica e2 req2 pid d1 = (Redirect_pratiche ''CHIUSA'' m2, d2) \<longrightarrow>
      (\<exists>c1. map_option data_chiusura (get_or_404 d1 pid) = Some (Some c1) \<and>
            map_option data_chiusura (get_or_404 d2 pid) = Some (Some c1)))"
proof (intro conjI impI)
  assume "get_or_404 d pid = Some p \<and> data_chiusura p = Some c \<and>
    pratica_modifica e req pid d = (Redirect_pratiche ''CHIUSA'' m, d')"
  then show "map_option data_chiusura (get_or_404 d' pid) = Some (Some c)"
    using pratica_modifica_data_chiusura [of d pid p e req "''CHIUSA''" m d'] by simp
next
  assume a: "pratica_modifica e1 req1 pid d = (Redirect_pratiche ''CHIUSA'' m1, d1) \<and>
    pratica_modifica e2 req2 pid d1 = (Redirect_pratiche ''CHIUSA'' m2, d2)"
  then have r1: "pratica_modifica e1 req1 pid d = (Redirect_pratiche ''CHIUSA'' m1, d1)"
    and r2: "pratica_modifica e2 req2 pid d1 = (Redirect_pratiche ''CHIUSA'' m2, d2)"
    by simp_all
  from pratica_modifica_found [OF r1] obtain p q
    where p: "get_or_404 d pid = Some p" and q: "get_or_404 d1 pid = Some q" by blast
  from pratica_modifica_data_chiusura [OF p r1] q
  obtain c1 where c1: "data_chiusura q = Some c1"
    by (cases "data_chiusura p") auto
  from pratica_modifica_data_chiusura [OF q r2] c1
  have "map_option data_chiusura (get_or_404 d2 pid) = Some (Some c1)" by simp
  with q c1 show "\<exists>c1. map_option data_chiusura (get_or_404 d1 pid) = Some (Some c1) \<and>
            map_option data_chiusura (get_or_404 d2 pid) = Some (Some c1)"
    by simp
qed

theorem chiusa_again_keeps_data_chiusura_witness:
  "get_or_404 db0 2 = Some row2 \<and> data_chiusura row2 = Some (2024, 4, 20) \<and>
   pratica_modifica env0 req_chiusa 2 db0 =
     (Redirect_pratiche ''CHIUSA'' (''Pratica aggiornata.'', ''ok''),
      snd (pratica_modifica env0 req_chiusa 2 db0)) \<and>
   map_option data_chiusura (get_or_404 (snd (pratica_modifica env0 req_chiusa 2 db0)) 2) =
     Some (Some (2024, 4, 20)) \<and>
   pratica_modifica env0 req_chiusa 1 db0 =
     (Redirect_pratiche ''CHIUSA'' (''Pratica aggiornata.'', ''ok''),
      snd (pratica_modifica env0 req_chiusa 1 db0)) \<and>
   pratica_modifica env1 req_chiusa 1 (snd (pratica_modifica env0 req_chiusa 1 db0)) =
     (Redirect_pratiche ''CHIUSA'' (''Pratica aggiornata.'', ''ok''),
      snd (pratica_modifica env1 req_chiusa 1 (snd (pratica_modifica env0 req_chiusa 1 db0)))) \<and>
   map_option data_chiusura (get_or_404 (snd (pratica_modifica env0 req_chiusa 1 db0)) 1) =
     Some (Some (2024, 5, 1)) \<and>
   map_option data_chiusura
     (get_or_404
        (snd (pratica_modifica env1 req_chiusa 1 (snd (pratica_modifica env0 req_chiusa 1 db0))))
        1) =
     Some (Some (2024, 5, 1))"
proof -
  let ?ok = "(''Pratica aggiornata.'', ''ok'')"
  let ?d' = "snd (pratica_modifica env0 req_chiusa 2 db0)"
  let ?d1 = "snd (pratica_modifica env0 req_chiusa 1 db0)"
  let ?d2 = "snd (pratica_modifica env1 req_chiusa 1 ?d1)"
  have g: "get_or_404 db0 2 = Some row2" by simp
  have c: "data_chiusura row2 = Some (2024, 4, 20)" by (simp add: row2_def)
  have u: "pratica_modifica env0 req_chiusa 2 db0 = (Redirect_pratiche ''CHIUSA'' ?ok, ?d')"
    by (simp add: eval_defs)
  have u1: "pratica_modifica env0 req_chiusa 1 db0 = (Redirect_pratiche ''CHIUSA'' ?ok, ?d1)"
    by (simp add: eval_defs)
  have u2: "pratica_modifica env1 req_chiusa 1 ?d1 = (Redirect_pratiche ''CHIUSA'' ?ok, ?d2)"
    by (simp add: eval_defs)
  have v1: "map_option data_chiusura (get_or_404 ?d1 1) = Some (Some (2024, 5, 1))"
    by (simp add: eval_defs)
  from chiusa_again_keeps_data_chiusura
    [of db0 2 row2 "(2024, 4, 20)" env0 req_chiusa ?ok ?d'] g c u
  have 1: "map_option data_chiusura (get_or_404 ?d' 2) = Some (Some (2024, 4, 20))"
    by blast
  from chiusa_again_keeps_data_chiusura
    [where d = db0 and pid = 1 and ?e1.0 = env0 and ?req1.0 = req_chiusa and ?m1.0 = ?ok
       and ?d1.0 = ?d1 and ?e2.0 = env1 and ?req2.0 = req_chiusa and ?m2.0 = ?ok
       and ?d2.0 = ?d2] u1 u2 v1
  have 2: "map_option data_chiusura (get_or_404 ?d2 1) = Some (Some (2024, 5, 1))"
    by auto
  from g c u 1 u1 u2 v1 2 show ?thesis by (intro conjI)
qed

text \<open>
  C6. A successful edit that resolves to a status other than \<open>CHIUSA\<close> stores the row
  with no closing date, whatever it was before. Hence after three successful edits in
  succession that resolve to \<open>CHIUSA\<close>, \<open>ATTIVA\<close> and \<open>CHIUSA\<close>, the closing date is
  the day of the third edit (the second closing), not that of the first.
\<close>

theorem leaving_chiusa_clears_data_chiusura:
  "(pratica_modifica e req pid d = (Redirect_pratiche s m, d') \<and> s \<noteq> ''CHIUSA'' \<longrightarrow>
      map_option data_chiusura (get_or_404 d' pid) = Some None) \<and>
   (pratica_modifica e1 req1 pid d = (Redirect_pratiche ''CHIUSA'' m1, d1) \<and>
    pratica_modifica e2 req2 pid d1 = (Redirect_pratiche ''ATTIVA'' m2, d2) \<and>
    pratica_modifica e3 req3 pid d2 = (Redirect_pratiche ''CHIUSA'' m3, d3) \<longrightarrow>
      map_option data_chiusura (get_or_404 d3 pid) = Some (Some (today e3)))"
proof (intro conjI impI)
  assume a: "pratica_modifica e req pid d = (Redirect_pratiche s m, d') \<and> s \<noteq> ''CHIUSA''"
  then have r: "pratica_modifica e req pid d = (Redirect_pratiche s m, d')"
    and s: "s \<noteq> ''CHIUSA''" by simp_all
  from pratica_modifica_found [OF r] obtain p where p: "get_or_404 d pid = Some p" by blast
  from pratica_modifica_data_chiusura [OF p r] s
  show "map_option data_chiusura (get_or_404 d' pid) = Some None" by simp
next
  assume a: "pratica_modifica e1 req1 pid d = (Redirect_pratiche ''CHIUSA'' m1, d1) \<and>
    pratica_modifica e2 req2 pid d1 = (Redirect_pratiche ''ATTIVA'' m2, d2) \<and>
    pratica_modifica e3 req3 pid d2 = (Redirect_pratiche ''CHIUSA'' m3, d3)"
  then have r2: "pratica_modifica e2 req2 pid d1 = (Redirect_pratiche ''ATTIVA'' m2, d2)"
    and r3: "pratica_modifica e3 req3 pid d2 = (Redirect_pratiche ''CHIUSA'' m3, d3)"
    by simp_all
  from pratica_modifica_found [OF r2] obtain p q
    where p: "get_or_404 d1 pid = Some p" and q: "get_or_404 d2 pid = Some q" by blast
  from pratica_modifica_data_chiusura [OF p r2] q have "data_chiusura q = None" by simp
  with pratica_modifica_data_chiusura [OF q r3]
  show "map_option data_chiusura (get_or_404 d3 pid) = Some (Some (today e3))" by simp
qed

theorem leaving_chiusa_clears_data_chiusura_witness:
  "pratica_modifica env0 req_attiva 2 db0 =
     (Redirect_pratiche ''ATTIVA'' (''Pratica aggiornata.'', ''ok''),
      snd (pratica_modifica env0 req_attiva 2 db0)) \<and>
   ''ATTIVA'' \<noteq> ''CHIUSA'' \<and>
   map_option data_chiusura (get_or_404 db0 2) = Some (Some (2024, 4, 20)) \<and>
   map_option data_chiusura (get_or_404 (snd (pratica_modifica env0 req_attiva 2 db0)) 2) =
     Some None \<and>
   pratica_modifica env0 req_chiusa 1 db0 =
     (Redirect_pratiche ''CHIUSA'' (''Pratica aggiornata.'', ''ok''),
      snd (pratica_modifica env0 req_chiusa 1 db0)) \<and>
   pratica_modifica env1 req_attiva 1 (snd (pratica_modifica env0 req_chiusa 1 db0)) =
     (Redirect_pratiche ''ATTIVA'' (''Pratica aggiornata.'', ''ok''),
      snd (pratica_modifica env1 req_attiva 1 (snd (pratica_modifica env0 req_chiusa 1 db0)))) \<and>
   pratica_modifica env2 req_chiusa 1
       (snd (pratica_modifica env1 req_attiva 1 (snd (pratica_modifica env0 req_chiusa 1 db0)))) =
     (Redirect_pratiche ''CHIUSA'' (''Pratica aggiornata.'', ''ok''),
      snd (pratica_modifica env2 req_chiusa 1
        (snd (pratica_modifica env1 req_attiva 1 (snd (pratica_modifica env0 req_chiusa 1 db0)))))) \<and>
   map_option data_chiusura (get_or_404 (snd (pratica_modifica env0 req_chiusa 1 db0)) 1) =
     Some (Some (2024, 5, 1)) \<and>
   map_option data_chiusura
     (get_or_404
        (snd (pratica_modifica env2 req_chiusa 1
          (snd (pratica_modifica env1 req_attiva 1 (snd (pratica_modifica env0 req_chiusa 1 db0))))))
        1) =
     Some (Some (2024, 5, 3))"
proof -
  let ?ok = "(''Pratica aggiornata.'', ''ok'')"
  let ?d' = "snd (pratica_modifica env0 req_attiva 2 db0)"
  let ?d1 = "snd (pratica_modifica env0 req_chiusa 1 db0)"
  let ?d2 = "snd (pratica_modifica env1 req_attiva 1 ?d1)"
  let ?d3 = "snd (pratica_modifica env2 req_chiusa 1 ?d2)"
  have u: "pratica_modifica env0 req_attiva 2 db0 = (Redirect_pratiche ''ATTIVA'' ?ok, ?d')"
    by (simp add: eval_defs)
  have n: "''ATTIVA'' \<noteq> ''CHIUSA''" by simp
  have b: "map_option data_chiusura (get_or_404 db0 2) = Some (Some (2024, 4, 20))"
    by (simp add: row2_def)
  have u1: "pratica_modifica env0 req_chiusa 1 db0 = (Redirect_pratiche ''CHIUSA'' ?ok, ?d1)"
    by (simp add: eval_defs)
  have u2: "pratica_modifica env1 req_attiva 1 ?d1 = (Redirect_pratiche ''ATTIVA'' ?ok, ?d2)"
    by (simp add: eval_defs)
  have u3: "pratica_modifica env2 req_chiusa 1 ?d2 = (Redirect_pratiche ''CHIUSA'' ?ok, ?d3)"
    by (simp add: eval_defs)
  have v1: "map_option data_chiusura (get_or_404 ?d1 1) = Some (Some (2024, 5, 1))"
    by (simp add: eval_defs)
  have t3: "today env2 = (2024, 5, 3)" by (simp add: env2_def)
  from leaving_chiusa_clears_data_chiusura
    [where e = env0 and req = req_attiva and pid = 2 and d = db0 and s = "''ATTIVA''"
       and m = ?ok and d' = ?d'] u n
  have 1: "map_option data_chiusura (get_or_404 ?d' 2) = Some None"
    by blast
  from leaving_chiusa_clears_data_chiusura
    [where d = db0 and pid = 1 and ?e1.0 = env0 and ?req1.0 = req_chiusa and ?m1.0 = ?ok
       and ?d1.0 = ?d1 and ?e2.0 = env1 and ?req2.0 = req_attiva and ?m2.0 = ?ok
       and ?d2.0 = ?d2 and ?e3.0 = env2 and ?req3.0 = req_chiusa and ?m3.0 = ?ok
       and ?d3.0 = ?d3] u1 u2 u3 t3
  have 2: "map_option data_chiusura (get_or_404 ?d3 1) = Some (Some (2024, 5, 3))"
    by simp
  from u n b 1 u1 u2 u3 v1 2 show ?thesis by (intro conjI)
qed

section \<open>What an edit leaves alone\<close>

text \<open>
  C8. A successful edit of a row stores it with the same \<open>id\<close>, \<open>data_apertura\<close>,
  \<open>created_at\<close> and \<open>created_by\<close>, with \<open>updated_at\<close> the time of the edit and
  \<open>updated_by\<close> the user name of the current user.
\<close>

theorem modifica_keeps_creation_fields:
  "get_or_404 d pid = Some p \<and> pratica_modifica e req pid d = (Redirect_pratiche s m, d') \<longrightarrow>
     (\<exists>q u. get_or_404 d' pid = Some q \<and> current_user e = Some u \<and>
        id_col q = id_col p \<and> data_apertura q = data_apertura p \<and>
        created_at q = created_at p \<and> created_by q = created_by p \<and>
        updated_at q = Some (utcnow e) \<and> updated_by q = Some u)"
proof
  assume a: "get_or_404 d pid = Some p \<and>
    pratica_modifica e req pid d = (Redirect_pratiche s m, d')"
  then have p: "get_or_404 d pid = Some p"
    and r: "pratica_modifica e req pid d = (Redirect_pratiche s m, d')" by simp_all
  from pratica_modifica_redirect [OF r] p obtain u
    where u: "current_user e = Some u"
      and q: "get_or_404 d' pid = Some ((modifica_assign e req p)\<lparr>updated_by := Some u\<rparr>)"
    by auto
  show "\<exists>q u. get_or_404 d' pid = Some q \<and> current_user e = Some u \<and>
        id_col q = id_col p \<and> data_apertura q = data_apertura p \<and>
        created_at q = created_at p \<and> created_by q = created_by p \<and>
        updated_at q = Some (utcnow e) \<and> updated_by q = Some u"
    using u q by (simp add: modifica_assign_frame modifica_assign_fields)
qed

theorem modifica_keeps_creation_fields_witness:
  "get_or_404 db0 2 = Some row2 \<and>
   pratica_modifica env1 req_attiva 2 db0 =
     (Redirect_pratiche ''ATTIVA'' (''Pratica aggiornata.'', ''ok''),
      snd (pratica_modifica env1 req_attiva 2 db0)) \<and>
   (\<exists>q. get_or_404 (snd (pratica_modifica env1 req_attiva 2 db0)) 2 = Some q \<and>
      id_col q = Some 2 \<and> data_apertura q = Some (2024, 3, 1) \<and>
      created_at q = Some (2024, 3, 1, 8, 0, 0, 3) \<and> created_by q = Some ''admin'' \<and>
      updated_at q = Some (2024, 5, 2, 8, 15, 0, 0) \<and> updated_by q = Some ''collab'')"
proof -
  let ?d' = "snd (pratica_modifica env1 req_attiva 2 db0)"
  have g: "get_or_404 db0 2 = Some row2" by simp
  have u: "pratica_modifica env1 req_attiva 2 db0 =
      (Redirect_pratiche ''ATTIVA'' (''Pratica aggiornata.'', ''ok''), ?d')"
    by (simp add: eval_defs)
  have f: "id_col row2 = Some 2" "data_apertura row2 = Some (2024, 3, 1)"
    "created_at row2 = Some (2024, 3, 1, 8, 0, 0, 3)" "created_by row2 = Some ''admin''"
    "utcnow env1 = (2024, 5, 2, 8, 15, 0, 0)" "current_user env1 = Some ''collab''"
    by (simp_all add: row2_def env1_def)
  from modifica_keeps_creation_fields
    [of db0 2 row2 env1 req_attiva "''ATTIVA''" "(''Pratica aggiornata.'', ''ok'')" ?d'] g u f
  have "\<exists>q. get_or_404 ?d' 2 = Some q \<and>
      id_col q = Some 2 \<and> data_apertura q = Some (2024, 3, 1) \<and>
      created_at q = Some (2024, 3, 1, 8, 0, 0, 3) \<and> created_by q = Some ''admin'' \<and>
      updated_at q = Some (2024, 5, 2, 8, 15, 0, 0) \<and> updated_by q = Some ''collab''"
    by auto
  with g u show ?thesis by (intro conjI)
qed

section \<open>The JSON listing\<close>

text \<open>
  C7. The listing is the serialisation of a list of rows that holds exactly the rows of the
  table whose status is the requested one (each as often as the table has it), in
  descending order of \<open>updated_at\<close>. The requested status is one of the three. With
  \<open>str.upper\<close> as it is on ASCII strings (\<open>upper_ok\<close>), it is the upper-cased query
  parameter, whatever its characters, when that is one of the three, and \<open>ATTIVA\<close> when
  the parameter is absent or anything else; for a parameter of ASCII characters it is
  decided by the parameter with its letters a to z in upper case, so in whatever case the
  status is written.
\<close>

theorem api_pratiche_filtered_sorted:
  "\<exists>items. api_pratiche e req d = Jsonify (map to_dict items) \<and>
      mset items = mset (filter (\<lambda>q. stato q = api_stato e req) (rows d)) \<and>
      sorted_wrt (\<lambda>a b. updated_at b \<le> updated_at a) items \<and>
      api_stato e req \<in> set stati \<and>
      (upper_ok (str_upper e) \<longrightarrow>
         api_stato e req =
           (case args req ''stato'' of
              None \<Rightarrow> ''ATTIVA''
            | Some x \<Rightarrow>
                if str_upper e x \<in> set stati then str_upper e x else ''ATTIVA'') \<and>
         (\<forall>x. args req ''stato'' = Some x \<and> ascii x \<longrightarrow>
            api_stato e req =
              (if ascii_upper x \<in> set stati then ascii_upper x else ''ATTIVA'')))"
proof -
  have "api_stato e req = (if ascii_upper x \<in> set stati then ascii_upper x else ''ATTIVA'')"
    if "upper_ok (str_upper e)" and "args req ''stato'' = Some x" and "ascii x" for x
    using api_stato_cases [OF that(1), of req] that by (simp add: upper_ok_def)
  then show ?thesis
    using mset_query_stato [of "api_stato e req" d] sorted_query_stato [of "api_stato e req" d]
      api_stato_valid [of e req] api_stato_cases [of e req]
    unfolding api_pratiche_def by blast
qed

theorem api_pratiche_filtered_sorted_witness:
  "upper_ok (str_upper env0) \<and>
   api_pratiche env0 (get_stato (Some ''attiva'')) db3 = Jsonify [to_dict row3, to_dict row1] \<and>
   api_stato env0 (get_stato (Some ''attiva'')) = ''ATTIVA'' \<and>
   api_stato env0 (get_stato (Some ''bogus'')) = ''ATTIVA'' \<and>
   api_stato env0 (get_stato None) = ''ATTIVA'' \<and>
   api_stato env0 (get_stato (Some ''nUoVa'')) = ''NUOVA'' \<and>
   api_stato env0 (get_stato (Some ''Chiusa'')) = ''CHIUSA''"
proof -
  let ?r = "get_stato (Some ''attiva'')"
  have ok: "upper_ok (str_upper env0)" by simp
  have c: "api_stato env0 r =
      (case args r ''stato'' of
         None \<Rightarrow> ''ATTIVA''
       | Some x \<Rightarrow> if str_upper env0 x \<in> set stati then str_upper env0 x else ''ATTIVA'')" for r
    using api_pratiche_filtered_sorted [of env0 r db3] ok by blast
  have su: "str_upper env0 = ascii_upper" by (simp add: env0_def)
  have s: "api_stato env0 ?r = ''ATTIVA''"
    by (simp add: c get_stato_def su ascii_upper_def upper_char_def stati_def)
  have s2: "api_stato env0 (get_stato (Some ''bogus'')) = ''ATTIVA''"
    by (simp add: c get_stato_def su ascii_upper_def upper_char_def stati_def)
  have s3: "api_stato env0 (get_stato None) = ''ATTIVA''"
    by (simp add: c get_stato_def)
  have s4: "api_stato env0 (get_stato (Some ''nUoVa'')) = ''NUOVA''"
    by (simp add: c get_stato_def su ascii_upper_def upper_char_def stati_def)
  have s5: "api_stato env0 (get_stato (Some ''Chiusa'')) = ''CHIUSA''"
    by (simp add: c get_stato_def su ascii_upper_def upper_char_def stati_def)
  from api_pratiche_filtered_sorted [of env0 ?r db3] obtain items
    where j: "api_pratiche env0 ?r db3 = Jsonify (map to_dict items)"
      and m: "mset items = mset (filter (\<lambda>q. stato q = api_stato env0 ?r) (rows db3))"
      and o: "sorted_wrt (\<lambda>a b. updated_at b \<le> updated_at a) items"
    by blast
  have f: "filter (\<lambda>q. stato q = ''ATTIVA'') (rows db3) = [row1, row3]"
    by (simp add: db3_def row1_def row2_def row3_def)
  from m have m': "mset items = {#row1, row3#}" unfolding s f by simp
  then have "length items = 2"
    by (metis size_mset size_add_mset size_empty numeral_2_eq_2)
  then obtain a b where ab: "items = [a, b]"
    by (auto simp: length_Suc_conv numeral_2_eq_2)
  have ne: "\<not> updated_at row3 \<le> updated_at row1"
    by (simp add: row1_def row3_def)
  from m' ab have "(a = row1 \<and> b = row3) \<or> (a = row3 \<and> b = row1)"
    by (auto simp: add_eq_conv_ex)
  with o ab ne have "items = [row3, row1]" by auto
  with ok j s s2 s3 s4 s5 show ?thesis by simp
qed

text \<open>
  C9. The dictionary of a row has exactly the nine keys \<open>id\<close>, \<open>cliente\<close> (client),
  \<open>oggetto\<close> (subject), \<open>stato\<close> (status), \<open>data_apertura\<close> (opened on),
  \<open>data_chiusura\<close> (closed on), \<open>note\<close> (notes), \<open>updated_at\<close> and \<open>updated_by\<close>, in
  this order. The two dates are null when absent and otherwise the ISO format of the date;
  \<open>updated_at\<close> is null when absent and otherwise the ISO format of the time; \<open>note\<close>
  and \<open>updated_by\<close> are strings, the empty one when absent. The ISO format of a date in
  Python's range has the shape \<open>YYYY-MM-DD\<close>, that of a time the shape
  \<open>YYYY-MM-DDTHH:MM:SS\<close>, followed by \<open>.ffffff\<close> when the microsecond is not zero.
\<close>

theorem to_dict_fields:
  "map fst (to_dict p) =
     [''id'', ''cliente'', ''oggetto'', ''stato'', ''data_apertura'', ''data_chiusura'',
      ''note'', ''updated_at'', ''updated_by''] \<and>
   map_of (to_dict p) ''id'' = Some (case id_col p of None \<Rightarrow> JNull | Some i \<Rightarrow> JInt i) \<and>
   map_of (to_dict p) ''cliente'' = Some (JStr (cliente p)) \<and>
   map_of (to_dict p) ''oggetto'' = Some (JStr (oggetto p)) \<and>
   map_of (to_dict p) ''stato'' = Some (JStr (stato p)) \<and>
   map_of (to_dict p) ''data_apertura'' =
     Some (case data_apertura p of None \<Rightarrow> JNull | Some d \<Rightarrow> JStr (date_isoformat d)) \<and>
   map_of (to_dict p) ''data_chiusura'' =
     Some (case data_chiusura p of None \<Rightarrow> JNull | Some d \<Rightarrow> JStr (date_isoformat d)) \<and>
   map_of (to_dict p) ''note'' = Some (JStr (case note_col p of None \<Rightarrow> '''' | Some s \<Rightarrow> s)) \<and>
   map_of (to_dict p) ''updated_at'' =
     Some (case updated_at p of None \<Rightarrow> JNull | Some t \<Rightarrow> JStr (datetime_isoformat t)) \<and>
   map_of (to_dict p) ''updated_by'' =
     Some (JStr (case updated_by p of None \<Rightarrow> '''' | Some s \<Rightarrow> s)) \<and>
   (\<forall>d. date_ok d \<longrightarrow> iso_date (date_isoformat d)) \<and>
   (\<forall>t. datetime_ok t \<longrightarrow> iso_datetime (datetime_isoformat t))"
proof -
  have "py_or x '''' = (case x of None \<Rightarrow> '''' | Some s \<Rightarrow> s)" for x
    by (simp add: py_or_def split: option.splits)
  then show ?thesis
    by (simp add: to_dict_def date_ok_iso datetime_ok_iso)
qed

theorem to_dict_fields_witness:
  "to_dict row2 =
     [(''id'', JInt 2), (''cliente'', JStr ''Bianchi''), (''oggetto'', JStr ''Ricorso''),
      (''stato'', JStr ''CHIUSA''), (''data_apertura'', JStr ''2024-03-01''),
      (''data_chiusura'', JStr ''2024-04-20''), (''note'', JStr ''''),
      (''updated_at'', JStr ''2024-04-20T16:05:09.000250''), (''updated_by'', JStr '''')] \<and>
   map_of (to_dict row1) ''data_chiusura'' = Some JNull \<and>
   map_of (to_dict row1) ''updated_at'' = Some (JStr ''2024-04-02T09:30:00'') \<and>
   date_ok (2024, 4, 20) \<and> iso_date ''2024-04-20'' \<and>
   datetime_ok (2024, 4, 20, 16, 5, 9, 250) \<and> iso_datetime ''2024-04-20T16:05:09.000250''"
proof -
  have e: "to_dict row2 =
     [(''id'', JInt 2), (''cliente'', JStr ''Bianchi''), (''oggetto'', JStr ''Ricorso''),
      (''stato'', JStr ''CHIUSA''), (''data_apertura'', JStr ''2024-03-01''),
      (''data_chiusura'', JStr ''2024-04-20''), (''note'', JStr ''''),
      (''updated_at'', JStr ''2024-04-20T16:05:09.000250''), (''updated_by'', JStr '''')]"
    by (simp add: to_dict_def row2_def py_or_def iso_eval)
  have d: "date_ok (2024, 4, 20)" by (simp add: date_ok_def)
  have t: "datetime_ok (2024, 4, 20, 16, 5, 9, 250)" by (simp add: datetime_ok_def date_ok_def)
  have fd: "date_isoformat (2024, 4, 20) = ''2024-04-20''" by (simp add: iso_eval)
  have ft: "datetime_isoformat (2024, 4, 20, 16, 5, 9, 250) = ''2024-04-20T16:05:09.000250''"
    by (simp add: iso_eval)
  have r1: "data_chiusura row1 = None" "updated_at row1 = Some (2024, 4, 2, 9, 30, 0, 0)"
    by (simp_all add: row1_def)
  have f1: "datetime_isoformat (2024, 4, 2, 9, 30, 0, 0) = ''2024-04-02T09:30:00''"
    by (simp add: iso_eval)
  from to_dict_fields [of row1] r1 f1
  have 1: "map_of (to_dict row1) ''data_chiusura'' = Some JNull"
    and 2: "map_of (to_dict row1) ''updated_at'' = Some (JStr ''2024-04-02T09:30:00'')"
    by simp_all
  from to_dict_fields [of row2] d t fd ft
  have 3: "iso_date ''2024-04-20''" and 4: "iso_datetime ''2024-04-20T16:05:09.000250''"
    by (metis, metis)
  from e 1 2 d 3 t 4 show ?thesis by (intro conjI)
qed

section \<open>Deletion\<close>

text \<open>
  C10. Deleting an existing id answers with the redirect and leaves a table in which that
  id is no longer found, every other id is found with the same row as before, the rows
  are the former rows without those of that id, in the same order, and the key counter
  is the same. When the keys are distinct, exactly one row, the one loaded, is gone.
\<close>

theorem elimina_removes_only_pid:
  "get_or_404 d pid = Some p \<longrightarrow>
     (\<exists>m d'. pratica_elimina pid d = (Redirect_pratiche (stato p) m, d') \<and>
        get_or_404 d' pid = None \<and>
        (\<forall>k. k \<noteq> pid \<longrightarrow> get_or_404 d' k = get_or_404 d k) \<and>
        rows d' = filter (\<lambda>q. id_col q \<noteq> Some pid) (rows d) \<and>
        next_id d' = next_id d \<and>
        (db_ok d \<longrightarrow> mset (rows d) = add_mset p (mset (rows d'))))"
proof
  assume p: "get_or_404 d pid = Some p"
  then have i: "id_col p = Some pid" by (rule get_or_404_id)
  let ?d' = "db_delete p d"
  have r: "rows ?d' = filter (\<lambda>q. id_col q \<noteq> Some pid) (rows d)"
    by (simp add: db_delete_def i)
  have 1: "pratica_elimina pid d =
      (Redirect_pratiche (stato p) (''Pratica eliminata.'', ''ok''), ?d')"
    using p by (simp add: pratica_elimina_def)
  have 2: "get_or_404 ?d' pid = None"
    by (simp add: get_or_404_def r find_filter_same)
  have 3: "\<forall>k. k \<noteq> pid \<longrightarrow> get_or_404 ?d' k = get_or_404 d k"
    by (simp add: get_or_404_def r find_filter_other)
  have 4: "next_id ?d' = next_id d"
    by (simp add: db_delete_def)
  have 5: "db_ok d \<longrightarrow> mset (rows d) = add_mset p (mset (rows ?d'))"
  proof
    assume "db_ok d"
    then have "distinct (map id_col (rows d))" by (simp add: db_ok_def)
    from mset_filter_distinct [OF this p [unfolded get_or_404_def]]
    show "mset (rows d) = add_mset p (mset (rows ?d'))" unfolding r .
  qed
  from 1 2 3 r 4 5 show "\<exists>m d'. pratica_elimina pid d = (Redirect_pratiche (stato p) m, d') \<and>
        get_or_404 d' pid = None \<and>
        (\<forall>k. k \<noteq> pid \<longrightarrow> get_or_404 d' k = get_or_404 d k) \<and>
        rows d' = filter (\<lambda>q. id_col q \<noteq> Some pid) (rows d) \<and>
        next_id d' = next_id d \<and>
        (db_ok d \<longrightarrow> mset (rows d) = add_mset p (mset (rows d')))"
    by blast
qed

theorem elimina_removes_only_pid_witness:
  "get_or_404 db0 1 = Some row1 \<and> db_ok db0 \<and>
   pratica_elimina 1 db0 =
     (Redirect_pratiche ''ATTIVA'' (''Pratica eliminata.'', ''ok''), \<lparr>rows = [row2], next_id = 3\<rparr>) \<and>
   get_or_404 \<lparr>rows = [row2], next_id = 3\<rparr> 1 = None \<and>
   get_or_404 \<lparr>rows = [row2], next_id = 3\<rparr> 2 = get_or_404 db0 2 \<and>
   mset (rows db0) = add_mset row1 (mset (rows \<lparr>rows = [row2], next_id = 3\<rparr>))"
proof -
  let ?d' = "\<lparr>rows = [row2], next_id = 3\<rparr>"
  have g: "get_or_404 db0 1 = Some row1" by simp
  have e: "pratica_elimina 1 db0 =
     (Redirect_pratiche ''ATTIVA'' (''Pratica eliminata.'', ''ok''), ?d')"
    by (simp add: eval_defs)
  from elimina_removes_only_pid [of db0 1 row1] g obtain m d'
    where a: "pratica_elimina 1 db0 = (Redirect_pratiche (stato row1) m, d')"
      and b: "get_or_404 d' 1 = None"
      and c: "\<forall>k. k \<noteq> 1 \<longrightarrow> get_or_404 d' k = get_or_404 db0 k"
      and f: "db_ok db0 \<longrightarrow> mset (rows db0) = add_mset row1 (mset (rows d'))"
    by blast
  from a e have d': "d' = ?d'" by simp
  from c have c2: "get_or_404 d' 2 = get_or_404 db0 2" by simp
  from f db_ok_db0 have f2: "mset (rows db0) = add_mset row1 (mset (rows d'))" by simp
  from g db_ok_db0 e b c2 f2 show ?thesis unfolding d' by (intro conjI)
qed

end
